theory Spec2Isabelle
  imports Complex_Main "HOL-Library.Word"
begin

section \<open>Machine types and library functions\<close>

text \<open>
  The program is C++ (\<open>StudentSystem.h\<close>, \<open>main.cpp\<close>). Its \<open>int\<close> is a 32-bit
  two's complement integer. A \<open>float\<close> is kept as its 32-bit pattern and a \<open>double\<close> as
  its 64-bit pattern: the program stores and copies them, it never computes with them.
  The two operations the program applies to them are library or hardware behaviour that
  is not part of the repository, so every function that needs one takes it as an argument:
  \<^item> \<open>narrow\<close>: \<open>static_cast<float>\<close> of a \<open>double\<close>;
  \<^item> \<open>f2s\<close>: \<open>std::to_string\<close> of a \<open>float\<close>.
  The \<open>double\<close> denoted by a decimal literal of \<open>main.cpp\<close> is chosen by the compiler;
  \<open>main\<close> takes that conversion as the argument \<open>lit\<close>. What the claims say of the
  store, the adapter and the demo holds for every such argument. The narrowing of
  IEEE 754 is given further down as \<open>ieee_narrow\<close>, for the one claim that is about
  what narrowing loses.
\<close>

type_synonym cpp_int = "32 word"
type_synonym cpp_float = "32 word"
type_synonym cpp_double = "64 word"

text \<open>\<open>std::endl\<close> writes a newline (the flush is not modelled).\<close>

definition endl :: string where
  "endl = [CHR 0x0A]"

text \<open>Decimal digits of a natural number, most significant first.\<close>

definition digit_char :: "nat \<Rightarrow> char" where
  "digit_char d = ''0123456789'' ! (d mod 10)"

fun dec_digits :: "nat \<Rightarrow> string" where
  "dec_digits n = (if n < 10 then [digit_char n]
                   else dec_digits (n div 10) @ [digit_char (n mod 10)])"

declare dec_digits.simps [simp del]

text \<open>
  \<open>std::to_string(int)\<close>, which is also the text \<open>operator<<\<close> writes for an \<open>int\<close>:
  the decimal digits, with a leading minus sign for a negative value.
\<close>

definition to_string :: "cpp_int \<Rightarrow> string" where
  "to_string i = (if sint i < 0 then CHR ''-'' # dec_digits (nat (- sint i))
                  else dec_digits (nat (sint i)))"

section \<open>The legacy store\<close>

text \<open>\<open>struct StudentRecord { int studentId; std::string fullName; float academicScore; }\<close>\<close>

record StudentRecord =
  studentId :: cpp_int
  fullName :: string
  academicScore :: cpp_float

text \<open>
  \<open>class LegacyStudentDatabase\<close> has the one data member \<open>records\<close>, a
  \<open>std::vector<StudentRecord>\<close>.
\<close>

record LegacyStudentDatabase =
  records :: "StudentRecord list"

text \<open>
  A member function that writes to \<open>std::cout\<close> returns the object after the call
  together with the text it wrote.
\<close>

definition insertStudentRecord ::
  "cpp_int \<Rightarrow> string \<Rightarrow> cpp_float \<Rightarrow> LegacyStudentDatabase \<Rightarrow> LegacyStudentDatabase \<times> string" where
  "insertStudentRecord sid name score db =
     (db\<lparr>records := records db @
          [\<lparr>studentId = sid, fullName = name, academicScore = score\<rparr>]\<rparr>,
      ''Legacy system: Added student with ID '' @ to_string sid @ endl)"

text \<open>
  \<open>std::remove_if\<close> moves the elements that do not satisfy the predicate to the front
  of the range, in their order, and returns the iterator \<open>it\<close> behind the last of them.
  \<open>remove_if p xs\<close> is the range from \<open>begin\<close> to \<open>it\<close> after the call. The elements from
  \<open>it\<close> to \<open>end\<close> are unspecified; \<open>deleteStudentRecord\<close> erases them without reading
  them, and \<open>it = end\<close> exactly when nothing was moved, that is when the two ranges have
  the same length.
\<close>

fun remove_if :: "('a \<Rightarrow> bool) \<Rightarrow> 'a list \<Rightarrow> 'a list" where
  "remove_if p [] = []"
| "remove_if p (x # xs) = (if p x then remove_if p xs else x # remove_if p xs)"

definition deleteStudentRecord ::
  "cpp_int \<Rightarrow> LegacyStudentDatabase \<Rightarrow> LegacyStudentDatabase \<times> string" where
  "deleteStudentRecord sid db =
     (let it = remove_if (\<lambda>record. studentId record = sid) (records db)
      in if length it \<noteq> length (records db)
         then (db\<lparr>records := it\<rparr>,
               ''Legacy system: Removed student with ID '' @ to_string sid @ endl)
         else (db,
               ''Legacy system: Student with ID '' @ to_string sid @ '' not found'' @ endl))"

text \<open>
  The loop of \<open>updateStudentRecord\<close>: \<open>Some\<close> of the vector after the first matching
  record was overwritten (the \<open>return\<close> inside the loop), \<open>None\<close> when the loop ran to
  the end without a match.
\<close>

fun update_loop ::
  "cpp_int \<Rightarrow> string \<Rightarrow> cpp_float \<Rightarrow> StudentRecord list \<Rightarrow> StudentRecord list option" where
  "update_loop sid name score [] = None"
| "update_loop sid name score (record # rest) =
     (if studentId record = sid
      then Some (record\<lparr>fullName := name, academicScore := score\<rparr> # rest)
      else (case update_loop sid name score rest of
              None \<Rightarrow> None
            | Some rest' \<Rightarrow> Some (record # rest')))"

definition updateStudentRecord ::
  "cpp_int \<Rightarrow> string \<Rightarrow> cpp_float \<Rightarrow> LegacyStudentDatabase \<Rightarrow> LegacyStudentDatabase \<times> string" where
  "updateStudentRecord sid name score db =
     (case update_loop sid name score (records db) of
        Some records' \<Rightarrow>
          (db\<lparr>records := records'\<rparr>,
           ''Legacy system: Updated student with ID '' @ to_string sid @ endl)
      | None \<Rightarrow>
          (db,
           ''Legacy system: Student with ID '' @ to_string sid @ '' not found'' @ endl))"

text \<open>
  \<open>int getRecordCount() const { return records.size(); }\<close>: the size, converted to
  \<open>int\<close>. The conversion keeps the low 32 bits, so it is the size itself for a vector of
  fewer than \<open>2 ^ 31\<close> records.
\<close>

definition getRecordCount :: "LegacyStudentDatabase \<Rightarrow> cpp_int" where
  "getRecordCount db = of_nat (length (records db))"

text \<open>\<open>fetchAllRecords\<close>: the loop pushes one string per record onto \<open>result\<close>.\<close>

definition fetchAllRecords :: "(cpp_float \<Rightarrow> string) \<Rightarrow> LegacyStudentDatabase \<Rightarrow> string list" where
  "fetchAllRecords f2s db =
     foldl (\<lambda>result record.
              result @ [''ID: '' @ to_string (studentId record) @
                        '', Name: '' @ fullName record @
                        '', Score: '' @ f2s (academicScore record)])
           [] (records db)"

section \<open>The adapter\<close>

text \<open>
  \<open>class StudentSystemAdapter\<close> owns its \<open>LegacyStudentDatabase\<close> through a
  \<open>std::unique_ptr\<close> that is never reseated or shared, so the adapter holds the store by
  value. The constructor makes an empty store.
\<close>

record StudentSystemAdapter =
  legacySystem :: LegacyStudentDatabase

definition new_StudentSystemAdapter :: StudentSystemAdapter where
  "new_StudentSystemAdapter = \<lparr>legacySystem = \<lparr>records = []\<rparr>\<rparr>"

definition addStudent ::
  "(cpp_double \<Rightarrow> cpp_float) \<Rightarrow> cpp_int \<Rightarrow> string \<Rightarrow> cpp_double \<Rightarrow>
     StudentSystemAdapter \<Rightarrow> StudentSystemAdapter \<times> string" where
  "addStudent narrow sid name gpa a =
     (let score = narrow gpa;
          (db, out) = insertStudentRecord sid name score (legacySystem a)
      in (a\<lparr>legacySystem := db\<rparr>, out))"

definition removeStudent :: "cpp_int \<Rightarrow> StudentSystemAdapter \<Rightarrow> StudentSystemAdapter \<times> string" where
  "removeStudent sid a =
     (let (db, out) = deleteStudentRecord sid (legacySystem a)
      in (a\<lparr>legacySystem := db\<rparr>, out))"

definition updateStudentDetails ::
  "(cpp_double \<Rightarrow> cpp_float) \<Rightarrow> cpp_int \<Rightarrow> string \<Rightarrow> cpp_double \<Rightarrow>
     StudentSystemAdapter \<Rightarrow> StudentSystemAdapter \<times> string" where
  "updateStudentDetails narrow sid name gpa a =
     (let score = narrow gpa;
          (db, out) = updateStudentRecord sid name score (legacySystem a)
      in (a\<lparr>legacySystem := db\<rparr>, out))"

definition getAllStudentsInfo :: "(cpp_float \<Rightarrow> string) \<Rightarrow> StudentSystemAdapter \<Rightarrow> string list" where
  "getAllStudentsInfo f2s a = fetchAllRecords f2s (legacySystem a)"

definition getTotalStudents :: "StudentSystemAdapter \<Rightarrow> cpp_int" where
  "getTotalStudents a = getRecordCount (legacySystem a)"

section \<open>The client and the demo\<close>

text \<open>
  \<open>class StudentManagementClient\<close> holds a pointer to a \<open>ModernStudentSystem\<close>. The only
  implementation of that interface is the adapter, and \<open>main\<close> passes one, so a client
  method takes the adapter it points to and the virtual call is the adapter's method.
\<close>

definition registerNewStudent ::
  "(cpp_double \<Rightarrow> cpp_float) \<Rightarrow> cpp_int \<Rightarrow> string \<Rightarrow> cpp_double \<Rightarrow>
     StudentSystemAdapter \<Rightarrow> StudentSystemAdapter \<times> string" where
  "registerNewStudent narrow sid name gpa system = addStudent narrow sid name gpa system"

definition client_removeStudent ::
  "cpp_int \<Rightarrow> StudentSystemAdapter \<Rightarrow> StudentSystemAdapter \<times> string" where
  "client_removeStudent sid system = removeStudent sid system"

definition client_updateStudentDetails ::
  "(cpp_double \<Rightarrow> cpp_float) \<Rightarrow> cpp_int \<Rightarrow> string \<Rightarrow> cpp_double \<Rightarrow>
     StudentSystemAdapter \<Rightarrow> StudentSystemAdapter \<times> string" where
  "client_updateStudentDetails narrow sid name gpa system =
     updateStudentDetails narrow sid name gpa system"

text \<open>\<open>displayAllStudents\<close> is \<open>const\<close>: it returns the text it writes.\<close>

definition displayAllStudents :: "(cpp_float \<Rightarrow> string) \<Rightarrow> StudentSystemAdapter \<Rightarrow> string" where
  "displayAllStudents f2s system =
     (let cout = ''Total Students: '' @ to_string (getTotalStudents system) @ endl;
          students = getAllStudentsInfo f2s system
      in foldl (\<lambda>cout info. cout @ info @ endl) cout students)"

text \<open>
  \<open>main\<close> returns its exit code and everything it wrote to \<open>std::cout\<close>; a
  newline escape in one of its string literals is the character \<open>endl\<close> stands for. The adapter
  after the three registrations, after the removal and after the update are the three
  objects that \<open>displayAllStudents\<close> is called on; each is returned with the text the
  store wrote on the way.
\<close>

definition system_registered ::
  "(string \<Rightarrow> cpp_double) \<Rightarrow> (cpp_double \<Rightarrow> cpp_float) \<Rightarrow> StudentSystemAdapter \<times> string" where
  "system_registered lit narrow =
     (let adaptedSystem = new_StudentSystemAdapter;
          (s1, o1) = registerNewStudent narrow 1001 ''John Smith'' (lit ''3.75'') adaptedSystem;
          (s2, o2) = registerNewStudent narrow 1002 ''Emily Johnson'' (lit ''3.92'') s1;
          (s3, o3) = registerNewStudent narrow 1003 ''Michael Brown'' (lit ''3.45'') s2
      in (s3, o1 @ o2 @ o3))"

definition system_removed ::
  "(string \<Rightarrow> cpp_double) \<Rightarrow> (cpp_double \<Rightarrow> cpp_float) \<Rightarrow> StudentSystemAdapter \<times> string" where
  "system_removed lit narrow =
     client_removeStudent 1002 (fst (system_registered lit narrow))"

definition system_updated ::
  "(string \<Rightarrow> cpp_double) \<Rightarrow> (cpp_double \<Rightarrow> cpp_float) \<Rightarrow> StudentSystemAdapter \<times> string" where
  "system_updated lit narrow =
     client_updateStudentDetails narrow 1003 ''Michael Brown Jr.'' (lit ''3.85'')
       (fst (system_removed lit narrow))"

definition main ::
  "(string \<Rightarrow> cpp_double) \<Rightarrow> (cpp_double \<Rightarrow> cpp_float) \<Rightarrow> (cpp_float \<Rightarrow> string) \<Rightarrow>
     cpp_int \<times> string" where
  "main lit narrow f2s =
     (let (s3, out_registered) = system_registered lit narrow;
          (s4, out_removed) = system_removed lit narrow;
          (s5, out_updated) = system_updated lit narrow
      in (0,
          ''Welcome to Student Management System'' @ endl @
          ''===================================='' @ endl @
          out_registered @
          endl @ ''Student Records:'' @ endl @
          ''----------------'' @ endl @
          displayAllStudents f2s s3 @
          endl @ ''Removing student with ID 1002...'' @ endl @
          out_removed @
          endl @ ''Updated Student Records:'' @ endl @
          ''-------------------------'' @ endl @
          displayAllStudents f2s s4 @
          endl @ ''Updating details for student with ID 1003...'' @ endl @
          out_updated @
          endl @ ''Final Student Records:'' @ endl @
          ''-----------------------'' @ endl @
          displayAllStudents f2s s5))"

section \<open>Sequences of operations\<close>

text \<open>
  A call of one of the three mutating member functions of the store, and a sequence of
  such calls run from left to right; \<open>run\<close> returns the store after the last call and
  everything the calls wrote.
\<close>

datatype store_op =
  Insert cpp_int string cpp_float
| Delete cpp_int
| Update cpp_int string cpp_float

fun apply_op :: "store_op \<Rightarrow> LegacyStudentDatabase \<Rightarrow> LegacyStudentDatabase \<times> string" where
  "apply_op (Insert sid name score) db = insertStudentRecord sid name score db"
| "apply_op (Delete sid) db = deleteStudentRecord sid db"
| "apply_op (Update sid name score) db = updateStudentRecord sid name score db"

fun run :: "store_op list \<Rightarrow> LegacyStudentDatabase \<Rightarrow> LegacyStudentDatabase \<times> string" where
  "run [] db = (db, [])"
| "run (c # cs) db =
     (let (db1, out1) = apply_op c db;
          (db2, out2) = run cs db1
      in (db2, out1 @ out2))"

text \<open>The number of \<open>insertStudentRecord\<close> calls in a sequence.\<close>

fun inserts_performed :: "store_op list \<Rightarrow> nat" where
  "inserts_performed [] = 0"
| "inserts_performed (Insert sid name score # cs) = Suc (inserts_performed cs)"
| "inserts_performed (c # cs) = inserts_performed cs"

text \<open>
  A \<open>deleteStudentRecord\<close> call reports success when it writes the \<open>Removed\<close> line.
\<close>

definition delete_succeeded :: "cpp_int \<Rightarrow> LegacyStudentDatabase \<Rightarrow> bool" where
  "delete_succeeded sid db \<longleftrightarrow>
     snd (deleteStudentRecord sid db) =
       ''Legacy system: Removed student with ID '' @ to_string sid @ endl"

text \<open>
  The number of \<open>deleteStudentRecord\<close> calls of a sequence that report success, when
  the sequence runs from the store \<open>db\<close>.
\<close>

fun successful_deletes :: "store_op list \<Rightarrow> LegacyStudentDatabase \<Rightarrow> nat" where
  "successful_deletes [] db = 0"
| "successful_deletes (Delete sid # cs) db =
     (if delete_succeeded sid db then 1 else 0) +
     successful_deletes cs (fst (deleteStudentRecord sid db))"
| "successful_deletes (c # cs) db = successful_deletes cs (fst (apply_op c db))"

text \<open>The number of records of a store that carry a given id.\<close>

definition count_id :: "cpp_int \<Rightarrow> LegacyStudentDatabase \<Rightarrow> nat" where
  "count_id sid db = length (filter (\<lambda>record. studentId record = sid) (records db))"

text \<open>
  For a sequence run from the store \<open>db\<close>: the number of records that carry the id of
  a \<open>deleteStudentRecord\<close> call at the moment of the call, summed over the delete calls
  of the sequence.
\<close>

fun records_matched :: "store_op list \<Rightarrow> LegacyStudentDatabase \<Rightarrow> nat" where
  "records_matched [] db = 0"
| "records_matched (Delete sid # cs) db =
     count_id sid db + records_matched cs (fst (deleteStudentRecord sid db))"
| "records_matched (c # cs) db = records_matched cs (fst (apply_op c db))"

text \<open>
  No insert of the sequence, run from the store \<open>db\<close>, adds an id that the store holds
  at that moment.
\<close>

fun fresh_inserts :: "store_op list \<Rightarrow> LegacyStudentDatabase \<Rightarrow> bool" where
  "fresh_inserts [] db = True"
| "fresh_inserts (Insert sid name score # cs) db =
     (count_id sid db = 0 \<and> fresh_inserts cs (fst (insertStudentRecord sid name score db)))"
| "fresh_inserts (c # cs) db = fresh_inserts cs (fst (apply_op c db))"

text \<open>
  A call of one of the three mutating member functions of the adapter, the store call
  the specification assigns to it, and a sequence of adapter calls run from left to right.
\<close>

datatype adapter_call =
  Add cpp_int string cpp_double
| Remove cpp_int
| UpdateDetails cpp_int string cpp_double

fun apply_call ::
  "(cpp_double \<Rightarrow> cpp_float) \<Rightarrow> adapter_call \<Rightarrow> StudentSystemAdapter \<Rightarrow>
     StudentSystemAdapter \<times> string" where
  "apply_call narrow (Add sid name gpa) a = addStudent narrow sid name gpa a"
| "apply_call narrow (Remove sid) a = removeStudent sid a"
| "apply_call narrow (UpdateDetails sid name gpa) a = updateStudentDetails narrow sid name gpa a"

fun run_adapter ::
  "(cpp_double \<Rightarrow> cpp_float) \<Rightarrow> adapter_call list \<Rightarrow> StudentSystemAdapter \<Rightarrow>
     StudentSystemAdapter \<times> string" where
  "run_adapter narrow [] a = (a, [])"
| "run_adapter narrow (c # cs) a =
     (let (a1, out1) = apply_call narrow c a;
          (a2, out2) = run_adapter narrow cs a1
      in (a2, out1 @ out2))"

text \<open>
  The store operation the specification gives for an adapter operation: the same
  operation under the store's name, with the score narrowed to single precision.
\<close>

fun spec_store_op :: "(cpp_double \<Rightarrow> cpp_float) \<Rightarrow> adapter_call \<Rightarrow> store_op" where
  "spec_store_op narrow (Add sid name gpa) = Insert sid name (narrow gpa)"
| "spec_store_op narrow (Remove sid) = Delete sid"
| "spec_store_op narrow (UpdateDetails sid name gpa) = Update sid name (narrow gpa)"

text \<open>The inserts of a list of (id, name, score) triples, in the list's order.\<close>

definition insert_ops :: "(cpp_int \<times> string \<times> cpp_float) list \<Rightarrow> store_op list" where
  "insert_ops ins = map (\<lambda>(sid, name, score). Insert sid name score) ins"

text \<open>The number a string of decimal digits denotes, to check \<open>dec_digits\<close> against.\<close>

definition dec_value :: "string \<Rightarrow> nat" where
  "dec_value s = foldl (\<lambda>acc c. 10 * acc + (of_char c - 48)) 0 s"

section \<open>Narrowing under IEEE 754\<close>

text \<open>
  Modelled from the spec: \<open>static_cast<float>\<close> is a primitive of the language and no
  code of the repository; the specification says that it narrows the score to single
  precision and that the result is the single-precision representation of the value.
  \<open>ieee_narrow\<close> is that conversion on the bit patterns, for IEEE 754 binary64 and
  binary32 under the default rounding, to nearest with ties to even. A \<open>double\<close> is a
  sign bit \<open>s\<close>, an exponent field \<open>e\<close> of 11 bits and a fraction \<open>f\<close> of 52 bits;
  a \<open>float\<close> has 8 and 23 bits. An infinity stays an infinity and a NaN becomes a quiet
  NaN; a subnormal \<open>double\<close> is below half the smallest \<open>float\<close> and becomes zero;
  a normal \<open>double\<close> \<open>(2 ^ 52 + f) * 2 ^ (e - 1075)\<close> is rounded to a multiple of
  \<open>2 ^ t\<close>, the spacing of the \<open>float\<close>s around it, and what is rounded up to
  \<open>2 ^ 128\<close> or lies above becomes an infinity.
\<close>

text \<open>\<open>m / 2 ^ k\<close> rounded to the nearest integer, a tie to the even one.\<close>

definition round_shift :: "int \<Rightarrow> nat \<Rightarrow> int" where
  "round_shift m k =
     (let d = m div 2 ^ k; r = m mod 2 ^ k; half = 2 ^ (k - 1)
      in if half < r \<or> (r = half \<and> odd d) then d + 1 else d)"

definition ieee_narrow :: "cpp_double \<Rightarrow> cpp_float" where
  "ieee_narrow d =
     (let bits = uint d;
          s = bits div 2 ^ 63;
          e = bits div 2 ^ 52 mod 2 ^ 11;
          f = bits mod 2 ^ 52;
          magnitude =
            (if e = 2047 then (if f = 0 then 0x7F800000 else 0x7FC00000 + f div 2 ^ 29 mod 2 ^ 22)
             else if e = 0 then 0
             else let t = max (e - 1046) (- 149);
                      n = round_shift (2 ^ 52 + f) (nat (t - (e - 1075)))
                  in min ((t + 149) * 2 ^ 23 + n) 0x7F800000)
      in word_of_int (s * 2 ^ 31 + magnitude))"

text \<open>
  The number a bit pattern stands for; \<open>None\<close> for an infinity or a NaN.
\<close>

definition pow2 :: "int \<Rightarrow> rat" where
  "pow2 k = (if 0 \<le> k then 2 ^ nat k else 1 / 2 ^ nat (- k))"

definition double_value :: "cpp_double \<Rightarrow> rat option" where
  "double_value d =
     (let bits = uint d;
          s = bits div 2 ^ 63;
          e = bits div 2 ^ 52 mod 2 ^ 11;
          f = bits mod 2 ^ 52
      in if e = 2047 then None
         else Some ((if s = 1 then - 1 else 1) *
                    (if e = 0 then of_int f * pow2 (- 1074)
                     else of_int (2 ^ 52 + f) * pow2 (e - 1075))))"

definition float_value :: "cpp_float \<Rightarrow> rat option" where
  "float_value x =
     (let bits = uint x;
          s = bits div 2 ^ 31;
          e = bits div 2 ^ 23 mod 2 ^ 8;
          f = bits mod 2 ^ 23
      in if e = 255 then None
         else Some ((if s = 1 then - 1 else 1) *
                    (if e = 0 then of_int f * pow2 (- 149)
                     else of_int (2 ^ 23 + f) * pow2 (e - 150))))"

section \<open>Facts about the library functions\<close>

lemma digit_char_value: "d < 10 \<Longrightarrow> of_char (digit_char d) = 48 + d"
proof -
  assume "d < 10"
  then consider "d = 0" | "d = 1" | "d = 2" | "d = 3" | "d = 4" | "d = 5" | "d = 6" | "d = 7"
    | "d = 8" | "d = 9" by atomize_elim arith
  then show ?thesis by cases (simp_all add: digit_char_def)
qed

lemma dec_value_snoc: "dec_value (s @ [c]) = 10 * dec_value s + (of_char c - 48)"
  by (simp add: dec_value_def)

text \<open>\<open>dec_digits\<close> writes the decimal numeral of its argument.\<close>

lemma dec_value_dec_digits: "dec_value (dec_digits n) = n"
proof (induction n rule: dec_digits.induct)
  case (1 n)
  show ?case
  proof (cases "n < 10")
    case True
    then show ?thesis
      by (subst dec_digits.simps) (simp add: dec_value_def digit_char_value)
  next
    case False
    with 1 have "dec_value (dec_digits (n div 10)) = n div 10" by simp
    with False show ?thesis
      by (subst dec_digits.simps) (simp add: dec_value_snoc digit_char_value)
  qed
qed

lemma to_string_1: "to_string 1 = ''1''"
  by (simp add: to_string_def dec_digits.simps digit_char_def)

lemma to_string_2: "to_string 2 = ''2''"
  by (simp add: to_string_def dec_digits.simps digit_char_def)

lemma to_string_3: "to_string 3 = ''3''"
  by (simp add: to_string_def dec_digits.simps digit_char_def)

lemma to_string_7: "to_string 7 = ''7''"
  by (simp add: to_string_def dec_digits.simps digit_char_def)

lemma to_string_1001: "to_string 1001 = ''1001''"
  by (simp add: to_string_def dec_digits.simps digit_char_def)

lemma to_string_1002: "to_string 1002 = ''1002''"
  by (simp add: to_string_def dec_digits.simps digit_char_def)

lemma to_string_1003: "to_string 1003 = ''1003''"
  by (simp add: to_string_def dec_digits.simps digit_char_def)

text \<open>
  A \<open>double\<close> has more bit patterns than a \<open>float\<close>, so whatever \<open>static_cast<float>\<close>
  computes, two different \<open>double\<close>s are narrowed to the same \<open>float\<close>, and nothing
  can give the \<open>double\<close> back from the stored \<open>float\<close>.
\<close>

lemma narrow_not_injective:
  fixes narrow :: "cpp_double \<Rightarrow> cpp_float"
  shows "\<exists>d d'. d \<noteq> d' \<and> narrow d = narrow d'"
proof (rule ccontr)
  assume "\<not> ?thesis"
  then have "inj narrow" by (auto simp: inj_on_def)
  then have "card (UNIV :: cpp_double set) \<le> card (UNIV :: cpp_float set)"
    by (rule card_inj_on_le) simp_all
  then show False by (simp add: card_word)
qed

lemma narrow_no_round_trip:
  fixes narrow :: "cpp_double \<Rightarrow> cpp_float"
  shows "\<not> (\<forall>d. widen (narrow d) = d)"
proof
  assume round_trip: "\<forall>d. widen (narrow d) = d"
  obtain d d' where "d \<noteq> d'" and "narrow d = narrow d'"
    using narrow_not_injective [of narrow] by blast
  with round_trip show False by metis
qed

section \<open>Facts about the store\<close>

lemma remove_if_filter: "remove_if p xs = filter (\<lambda>x. \<not> p x) xs"
  by (induction xs) simp_all

lemma length_remove_if_le: "length (remove_if p xs) \<le> length xs"
  by (simp add: remove_if_filter)

text \<open>The iterator returned by \<open>std::remove_if\<close> is \<open>end\<close> exactly when no element matches.\<close>

lemma remove_if_same_length:
  "length (remove_if p xs) = length xs \<longleftrightarrow> (\<forall>x\<in>set xs. \<not> p x)"
proof (induction xs)
  case Nil
  show ?case by simp
next
  case (Cons x xs)
  have "length (remove_if p xs) \<le> length xs" by (rule length_remove_if_le)
  with Cons show ?case by auto
qed

lemma remove_if_none: "\<forall>x\<in>set xs. \<not> p x \<Longrightarrow> remove_if p xs = xs"
  by (induction xs) simp_all

lemma push_back_loop: "foldl (\<lambda>result x. result @ [f x]) acc xs = acc @ map f xs"
  by (induction xs arbitrary: acc) simp_all

lemma print_loop:
  "foldl (\<lambda>cout info. cout @ info @ e) acc xs = acc @ concat (map (\<lambda>info. info @ e) xs)"
  by (induction xs arbitrary: acc) simp_all

lemma update_loop_None:
  "update_loop sid name score rs = None \<longleftrightarrow> (\<forall>r\<in>set rs. studentId r \<noteq> sid)"
  by (induction rs) (auto split: option.splits)

lemma update_loop_first:
  "\<forall>x\<in>set xs. studentId x \<noteq> sid \<Longrightarrow> studentId r = sid \<Longrightarrow>
   update_loop sid name score (xs @ r # ys) =
     Some (xs @ r\<lparr>fullName := name, academicScore := score\<rparr> # ys)"
  by (induction xs) simp_all

lemma update_loop_ids:
  "update_loop sid name score rs = Some rs' \<Longrightarrow> map studentId rs' = map studentId rs"
  by (induction rs arbitrary: rs') (auto split: if_splits option.splits)

lemma update_loop_count:
  "update_loop sid name score rs = Some rs' \<Longrightarrow>
   length (filter (\<lambda>record. studentId record = sid') rs') =
   length (filter (\<lambda>record. studentId record = sid') rs)"
  by (induction rs arbitrary: rs') (auto split: if_splits option.splits)

text \<open>Below \<open>2 ^ 31\<close> records the \<open>int\<close> that \<open>getRecordCount\<close> returns is the size.\<close>

lemma sint_getRecordCount:
  "length (records db) < 2 ^ 31 \<Longrightarrow> sint (getRecordCount db) = int (length (records db))"
  unfolding getRecordCount_def
  by (simp add: signed_of_nat signed_take_bit_int_eq_self)

lemma length_insert:
  "length (records (fst (insertStudentRecord sid name score db))) = Suc (length (records db))"
  by (simp add: insertStudentRecord_def)

lemma deleteStudentRecord_records:
  "records (fst (deleteStudentRecord sid db)) =
     filter (\<lambda>record. studentId record \<noteq> sid) (records db)"
proof (cases "length (remove_if (\<lambda>record. studentId record = sid) (records db)) =
    length (records db)")
  case True
  then have "\<forall>record\<in>set (records db). studentId record \<noteq> sid"
    by (simp add: remove_if_same_length)
  then have "filter (\<lambda>record. studentId record \<noteq> sid) (records db) = records db"
    by (simp add: filter_id_conv)
  with True show ?thesis by (simp add: deleteStudentRecord_def)
next
  case False
  then show ?thesis by (simp add: deleteStudentRecord_def remove_if_filter)
qed

lemma length_update:
  "length (records (fst (updateStudentRecord sid name score db))) = length (records db)"
proof (cases "update_loop sid name score (records db)")
  case None
  then show ?thesis by (simp add: updateStudentRecord_def)
next
  case (Some rs')
  have "map studentId rs' = map studentId (records db)"
    using Some by (rule update_loop_ids)
  then have "length rs' = length (records db)"
    by (metis length_map)
  with Some show ?thesis by (simp add: updateStudentRecord_def)
qed

text \<open>The \<open>Removed\<close> line is written exactly when some record has the id.\<close>

lemma delete_succeeded_iff:
  "delete_succeeded sid db \<longleftrightarrow> (\<exists>record\<in>set (records db). studentId record = sid)"
  by (auto simp: delete_succeeded_def deleteStudentRecord_def Let_def remove_if_same_length)

text \<open>A delete takes out exactly the records that carry the id.\<close>

lemma delete_size:
  "length (records (fst (deleteStudentRecord sid db))) + count_id sid db = length (records db)"
  using sum_length_filter_compl [of "\<lambda>record. studentId record = sid" "records db"]
  by (simp add: deleteStudentRecord_records count_id_def)

lemma delete_succeeded_count: "delete_succeeded sid db \<longleftrightarrow> 0 < count_id sid db"
  by (simp add: delete_succeeded_iff count_id_def length_greater_0_conv filter_empty_conv)

lemma count_id_insert:
  "count_id sid' (fst (insertStudentRecord sid name score db)) =
     count_id sid' db + (if sid = sid' then 1 else 0)"
  by (simp add: count_id_def insertStudentRecord_def)

lemma count_id_delete:
  "count_id sid' (fst (deleteStudentRecord sid db)) = (if sid = sid' then 0 else count_id sid' db)"
  by (auto simp: count_id_def deleteStudentRecord_records
      intro!: arg_cong [where f = length] filter_cong)

lemma count_id_update:
  "count_id sid' (fst (updateStudentRecord sid name score db)) = count_id sid' db"
  by (auto simp: updateStudentRecord_def count_id_def split: option.splits
      dest: update_loop_count)

section \<open>Facts about sequences of operations\<close>

lemma run_Cons_fst: "fst (run (c # cs) db) = fst (run cs (fst (apply_op c db)))"
  by (simp add: split_beta Let_def)

text \<open>Every record that was inserted is in the vector or was taken out by a delete.\<close>

lemma run_matched:
  "length (records (fst (run cs db))) + records_matched cs db =
     length (records db) + inserts_performed cs"
proof (induction cs arbitrary: db)
  case Nil
  show ?case by simp
next
  case (Cons c cs)
  note ih = Cons.IH [of "fst (apply_op c db)"]
  show ?case
  proof (cases c)
    case (Insert sid name score)
    with ih show ?thesis by (simp add: run_Cons_fst length_insert del: run.simps)
  next
    case (Delete sid)
    with ih delete_size [of sid db] show ?thesis by (simp add: run_Cons_fst del: run.simps)
  next
    case (Update sid name score)
    with ih show ?thesis by (simp add: run_Cons_fst length_update del: run.simps)
  qed
qed

text \<open>A delete that reports success takes at least one record out.\<close>

lemma successful_le_matched: "successful_deletes cs db \<le> records_matched cs db"
proof (induction cs arbitrary: db)
  case Nil
  show ?case by simp
next
  case (Cons c cs)
  note ih = Cons.IH [of "fst (apply_op c db)"]
  show ?case
  proof (cases c)
    case (Delete sid)
    with ih show ?thesis by (simp add: delete_succeeded_count)
  qed (use ih in simp_all)
qed

text \<open>
  While the ids in the store are pairwise distinct, a delete that reports success takes
  out one record, and the store stays so as long as no insert adds an id it holds.
\<close>

lemma count_id_distinct:
  assumes "distinct (map studentId (records db))"
  shows "count_id sid db = (if delete_succeeded sid db then 1 else 0)"
proof -
  have "distinct (map studentId rs) \<Longrightarrow>
        length (filter (\<lambda>record. studentId record = sid) rs) =
          (if \<exists>record\<in>set rs. studentId record = sid then 1 else 0)" for rs
    by (induction rs) (auto simp: image_iff)
  from this [OF assms] show ?thesis
    by (simp add: count_id_def delete_succeeded_iff)
qed

lemma distinct_insert:
  "distinct (map studentId (records db)) \<Longrightarrow> count_id sid db = 0 \<Longrightarrow>
   distinct (map studentId (records (fst (insertStudentRecord sid name score db))))"
  by (auto simp: insertStudentRecord_def count_id_def filter_empty_conv)

lemma distinct_delete:
  "distinct (map studentId (records db)) \<Longrightarrow>
   distinct (map studentId (records (fst (deleteStudentRecord sid db))))"
  by (simp add: deleteStudentRecord_records distinct_map_filter)

lemma distinct_update:
  "distinct (map studentId (records db)) \<Longrightarrow>
   distinct (map studentId (records (fst (updateStudentRecord sid name score db))))"
  by (auto simp: updateStudentRecord_def split: option.splits dest: update_loop_ids)

lemma matched_is_successful:
  "distinct (map studentId (records db)) \<Longrightarrow> fresh_inserts cs db \<Longrightarrow>
   records_matched cs db = successful_deletes cs db"
proof (induction cs arbitrary: db)
  case Nil
  show ?case by simp
next
  case (Cons c cs)
  show ?case
  proof (cases c)
    case (Insert sid name score)
    with Cons.prems have "count_id sid db = 0"
      and "fresh_inserts cs (fst (insertStudentRecord sid name score db))" by simp_all
    with Cons.prems(1) Cons.IH [of "fst (insertStudentRecord sid name score db)"] Insert
    show ?thesis by (simp add: distinct_insert)
  next
    case (Delete sid)
    with Cons.prems have "fresh_inserts cs (fst (deleteStudentRecord sid db))" by simp
    with Cons.prems(1) Cons.IH [of "fst (deleteStudentRecord sid db)"] Delete
    show ?thesis by (simp add: distinct_delete count_id_distinct)
  next
    case (Update sid name score)
    with Cons.prems have "fresh_inserts cs (fst (updateStudentRecord sid name score db))"
      by simp
    with Cons.prems(1) Cons.IH [of "fst (updateStudentRecord sid name score db)"] Update
    show ?thesis by (simp add: distinct_update)
  qed
qed

lemma run_insert_ops_length:
  "length (records (fst (run (insert_ops ins) db))) = length (records db) + length ins"
proof (induction ins arbitrary: db)
  case Nil
  show ?case by (simp add: insert_ops_def)
next
  case (Cons i ins)
  obtain sid name score where i: "i = (sid, name, score)" by (cases i)
  have "insert_ops (i # ins) = Insert sid name score # insert_ops ins"
    by (simp add: insert_ops_def i)
  with Cons.IH [of "fst (insertStudentRecord sid name score db)"]
  show ?case by (simp add: run_Cons_fst length_insert del: run.simps)
qed

text \<open>Without a delete of the id, the number of records with that id never goes down.\<close>

lemma count_id_run:
  "Delete sid \<notin> set cs \<Longrightarrow> count_id sid db \<le> count_id sid (fst (run cs db))"
proof (induction cs arbitrary: db)
  case Nil
  show ?case by simp
next
  case (Cons c cs)
  then have ih: "count_id sid (fst (apply_op c db)) \<le>
      count_id sid (fst (run cs (fst (apply_op c db))))"
    by simp
  have "count_id sid db \<le> count_id sid (fst (apply_op c db))"
    using Cons.prems by (cases c) (auto simp: count_id_insert count_id_delete count_id_update)
  with ih show ?case by (simp add: run_Cons_fst del: run.simps)
qed

lemma apply_call_delegates:
  "apply_call narrow c a =
     (a\<lparr>legacySystem := fst (apply_op (spec_store_op narrow c) (legacySystem a))\<rparr>,
      snd (apply_op (spec_store_op narrow c) (legacySystem a)))"
  by (cases c)
    (simp_all add: addStudent_def removeStudent_def updateStudentDetails_def split_beta Let_def)

lemma run_adapter_delegates:
  "run_adapter narrow cs a =
     (a\<lparr>legacySystem := fst (run (map (spec_store_op narrow) cs) (legacySystem a))\<rparr>,
      snd (run (map (spec_store_op narrow) cs) (legacySystem a)))"
proof (induction cs arbitrary: a)
  case Nil
  show ?case by simp
next
  case (Cons c cs)
  show ?case
    by (simp add: Cons.IH apply_call_delegates split_beta del: apply_call.simps)
qed

section \<open>Facts about the demo\<close>

text \<open>\<open>displayAllStudents\<close> prints the total and then the entries, one per line.\<close>

lemma displayAllStudents_lines:
  "displayAllStudents f2s system =
     ''Total Students: '' @ to_string (getTotalStudents system) @ endl @
     concat (map (\<lambda>info. info @ endl) (getAllStudentsInfo f2s system))"
  by (simp add: displayAllStudents_def print_loop)

lemma system_registered_eq:
  "system_registered lit narrow =
     (\<lparr>legacySystem = \<lparr>records =
        [\<lparr>studentId = 1001, fullName = ''John Smith'', academicScore = narrow (lit ''3.75'')\<rparr>,
         \<lparr>studentId = 1002, fullName = ''Emily Johnson'', academicScore = narrow (lit ''3.92'')\<rparr>,
         \<lparr>studentId = 1003, fullName = ''Michael Brown'', academicScore = narrow (lit ''3.45'')\<rparr>]\<rparr>\<rparr>,
      ''Legacy system: Added student with ID 1001'' @ endl @
      ''Legacy system: Added student with ID 1002'' @ endl @
      ''Legacy system: Added student with ID 1003'' @ endl)"
  by (simp add: system_registered_def registerNewStudent_def addStudent_def
      new_StudentSystemAdapter_def insertStudentRecord_def
      to_string_1001 to_string_1002 to_string_1003)

lemma system_removed_eq:
  "system_removed lit narrow =
     (\<lparr>legacySystem = \<lparr>records =
        [\<lparr>studentId = 1001, fullName = ''John Smith'', academicScore = narrow (lit ''3.75'')\<rparr>,
         \<lparr>studentId = 1003, fullName = ''Michael Brown'', academicScore = narrow (lit ''3.45'')\<rparr>]\<rparr>\<rparr>,
      ''Legacy system: Removed student with ID 1002'' @ endl)"
  by (simp add: system_removed_def system_registered_eq client_removeStudent_def
      removeStudent_def deleteStudentRecord_def to_string_1002)

lemma system_updated_eq:
  "system_updated lit narrow =
     (\<lparr>legacySystem = \<lparr>records =
        [\<lparr>studentId = 1001, fullName = ''John Smith'', academicScore = narrow (lit ''3.75'')\<rparr>,
         \<lparr>studentId = 1003, fullName = ''Michael Brown Jr.'',
          academicScore = narrow (lit ''3.85'')\<rparr>]\<rparr>\<rparr>,
      ''Legacy system: Updated student with ID 1003'' @ endl)"
  by (simp add: system_updated_def system_removed_eq client_updateStudentDetails_def
      updateStudentDetails_def updateStudentRecord_def to_string_1003)

section \<open>Facts about narrowing\<close>

text \<open>
  The \<open>double\<close> of the literal 3.75 is a \<open>float\<close> as it is; the \<open>double\<close> of
  3.14159265358979 is not, and the \<open>double\<close> with the value of its \<open>float\<close> is
  another one.
\<close>

lemma ieee_narrow_exact: "ieee_narrow 0x400E000000000000 = 0x40700000"
  by (simp add: ieee_narrow_def round_shift_def Let_def)

text \<open>
  Ties go to the even neighbour, the sign is kept, the smallest \<open>float\<close> is reached
  and half of it is not, and what rounds up past the largest \<open>float\<close> is an infinity.
\<close>

lemma ieee_narrow_ties:
  "ieee_narrow 0x3FF0000010000000 = 0x3F800000"
  "ieee_narrow 0x3FF0000030000000 = 0x3F800002"
  by (simp_all add: ieee_narrow_def round_shift_def Let_def)

lemma ieee_narrow_range:
  "ieee_narrow 0xC00E000000000000 = 0xC0700000"
  "ieee_narrow 0x36A0000000000000 = 0x00000001"
  "ieee_narrow 0x3690000000000000 = 0x00000000"
  "ieee_narrow 0x3690000000000001 = 0x00000001"
  "ieee_narrow 0x47EFFFFFEFFFFFFF = 0x7F7FFFFF"
  "ieee_narrow 0x47EFFFFFF0000000 = 0x7F800000"
  "ieee_narrow 0x7FF0000000000000 = 0x7F800000"
  by (simp_all add: ieee_narrow_def round_shift_def Let_def)

lemma ieee_narrow_example: "ieee_narrow 0x400921FB54442D11 = 0x40490FDB"
  by (simp add: ieee_narrow_def round_shift_def Let_def)

lemma ieee_narrow_example_widened: "ieee_narrow 0x400921FB60000000 = 0x40490FDB"
  by (simp add: ieee_narrow_def round_shift_def Let_def)

lemma double_value_example:
  "double_value 0x400921FB54442D11 = Some (7074237752028433 / 2251799813685248)"
  by (simp add: double_value_def pow2_def Let_def)

lemma double_value_widened:
  "double_value 0x400921FB60000000 = Some (13176795 / 4194304)"
  by (simp add: double_value_def pow2_def Let_def)

lemma float_value_example: "float_value 0x40490FDB = Some (13176795 / 4194304)"
  by (simp add: float_value_def pow2_def Let_def)

lemma listing_after_add:
  "getAllStudentsInfo f2s (fst (addStudent narrow 1 ''A'' gpa new_StudentSystemAdapter)) =
     [''ID: 1, Name: A, Score: '' @ f2s (narrow gpa)]"
  by (simp add: getAllStudentsInfo_def fetchAllRecords_def addStudent_def
      insertStudentRecord_def new_StudentSystemAdapter_def to_string_1)

section \<open>The claims\<close>

subsection \<open>The demo of \<open>main.cpp\<close>\<close>

text \<open>
  Claim C1: the scripted sequence of \<open>main\<close> adds (1001, John Smith, 3.75),
  (1002, Emily Johnson, 3.92) and (1003, Michael Brown, 3.45), removes 1002 and updates
  1003 to (Michael Brown Jr., 3.85). After the adds \<open>getTotalStudents\<close> is 3; after the
  removal it is 2 and \<open>getAllStudentsInfo\<close> holds the entries of 1001 and 1003, in that
  order; after the update the entry of 1003 shows the new name and score and the entry of
  1001 is as before. The last conjunct is the exit code and the whole text \<open>main\<close> writes,
  where \<open>displayAllStudents\<close> prints these totals and entries.
\<close>

theorem demo_sequence:
  "getTotalStudents (fst (system_registered lit narrow)) = 3 \<and>
   getAllStudentsInfo f2s (fst (system_registered lit narrow)) =
     [''ID: 1001, Name: John Smith, Score: '' @ f2s (narrow (lit ''3.75'')),
      ''ID: 1002, Name: Emily Johnson, Score: '' @ f2s (narrow (lit ''3.92'')),
      ''ID: 1003, Name: Michael Brown, Score: '' @ f2s (narrow (lit ''3.45''))] \<and>
   getTotalStudents (fst (system_removed lit narrow)) = 2 \<and>
   getAllStudentsInfo f2s (fst (system_removed lit narrow)) =
     [''ID: 1001, Name: John Smith, Score: '' @ f2s (narrow (lit ''3.75'')),
      ''ID: 1003, Name: Michael Brown, Score: '' @ f2s (narrow (lit ''3.45''))] \<and>
   getTotalStudents (fst (system_updated lit narrow)) = 2 \<and>
   getAllStudentsInfo f2s (fst (system_updated lit narrow)) =
     [''ID: 1001, Name: John Smith, Score: '' @ f2s (narrow (lit ''3.75'')),
      ''ID: 1003, Name: Michael Brown Jr., Score: '' @ f2s (narrow (lit ''3.85''))] \<and>
   main lit narrow f2s =
     (0,
      ''Welcome to Student Management System'' @ endl @
      ''===================================='' @ endl @
      ''Legacy system: Added student with ID 1001'' @ endl @
      ''Legacy system: Added student with ID 1002'' @ endl @
      ''Legacy system: Added student with ID 1003'' @ endl @
      endl @ ''Student Records:'' @ endl @
      ''----------------'' @ endl @
      ''Total Students: 3'' @ endl @
      ''ID: 1001, Name: John Smith, Score: '' @ f2s (narrow (lit ''3.75'')) @ endl @
      ''ID: 1002, Name: Emily Johnson, Score: '' @ f2s (narrow (lit ''3.92'')) @ endl @
      ''ID: 1003, Name: Michael Brown, Score: '' @ f2s (narrow (lit ''3.45'')) @ endl @
      endl @ ''Removing student with ID 1002...'' @ endl @
      ''Legacy system: Removed student with ID 1002'' @ endl @
      endl @ ''Updated Student Records:'' @ endl @
      ''-------------------------'' @ endl @
      ''Total Students: 2'' @ endl @
      ''ID: 1001, Name: John Smith, Score: '' @ f2s (narrow (lit ''3.75'')) @ endl @
      ''ID: 1003, Name: Michael Brown, Score: '' @ f2s (narrow (lit ''3.45'')) @ endl @
      endl @ ''Updating details for student with ID 1003...'' @ endl @
      ''Legacy system: Updated student with ID 1003'' @ endl @
      endl @ ''Final Student Records:'' @ endl @
      ''-----------------------'' @ endl @
      ''Total Students: 2'' @ endl @
      ''ID: 1001, Name: John Smith, Score: '' @ f2s (narrow (lit ''3.75'')) @ endl @
      ''ID: 1003, Name: Michael Brown Jr., Score: '' @ f2s (narrow (lit ''3.85'')) @ endl)"
proof -
  have t3: "getTotalStudents (fst (system_registered lit narrow)) = 3"
    by (simp add: system_registered_eq getTotalStudents_def getRecordCount_def)
  have l3: "getAllStudentsInfo f2s (fst (system_registered lit narrow)) =
     [''ID: 1001, Name: John Smith, Score: '' @ f2s (narrow (lit ''3.75'')),
      ''ID: 1002, Name: Emily Johnson, Score: '' @ f2s (narrow (lit ''3.92'')),
      ''ID: 1003, Name: Michael Brown, Score: '' @ f2s (narrow (lit ''3.45''))]"
    by (simp add: system_registered_eq getAllStudentsInfo_def fetchAllRecords_def
        to_string_1001 to_string_1002 to_string_1003)
  have t4: "getTotalStudents (fst (system_removed lit narrow)) = 2"
    by (simp add: system_removed_eq getTotalStudents_def getRecordCount_def)
  have l4: "getAllStudentsInfo f2s (fst (system_removed lit narrow)) =
     [''ID: 1001, Name: John Smith, Score: '' @ f2s (narrow (lit ''3.75'')),
      ''ID: 1003, Name: Michael Brown, Score: '' @ f2s (narrow (lit ''3.45''))]"
    by (simp add: system_removed_eq getAllStudentsInfo_def fetchAllRecords_def
        to_string_1001 to_string_1003)
  have t5: "getTotalStudents (fst (system_updated lit narrow)) = 2"
    by (simp add: system_updated_eq getTotalStudents_def getRecordCount_def)
  have l5: "getAllStudentsInfo f2s (fst (system_updated lit narrow)) =
     [''ID: 1001, Name: John Smith, Score: '' @ f2s (narrow (lit ''3.75'')),
      ''ID: 1003, Name: Michael Brown Jr., Score: '' @ f2s (narrow (lit ''3.85''))]"
    by (simp add: system_updated_eq getAllStudentsInfo_def fetchAllRecords_def
        to_string_1001 to_string_1003)
  have d3: "displayAllStudents f2s (fst (system_registered lit narrow)) =
      ''Total Students: 3'' @ endl @
      ''ID: 1001, Name: John Smith, Score: '' @ f2s (narrow (lit ''3.75'')) @ endl @
      ''ID: 1002, Name: Emily Johnson, Score: '' @ f2s (narrow (lit ''3.92'')) @ endl @
      ''ID: 1003, Name: Michael Brown, Score: '' @ f2s (narrow (lit ''3.45'')) @ endl"
    by (simp add: displayAllStudents_def t3 l3 to_string_3)
  have d4: "displayAllStudents f2s (fst (system_removed lit narrow)) =
      ''Total Students: 2'' @ endl @
      ''ID: 1001, Name: John Smith, Score: '' @ f2s (narrow (lit ''3.75'')) @ endl @
      ''ID: 1003, Name: Michael Brown, Score: '' @ f2s (narrow (lit ''3.45'')) @ endl"
    by (simp add: displayAllStudents_def t4 l4 to_string_2)
  have d5: "displayAllStudents f2s (fst (system_updated lit narrow)) =
      ''Total Students: 2'' @ endl @
      ''ID: 1001, Name: John Smith, Score: '' @ f2s (narrow (lit ''3.75'')) @ endl @
      ''ID: 1003, Name: Michael Brown Jr., Score: '' @ f2s (narrow (lit ''3.85'')) @ endl"
    by (simp add: displayAllStudents_def t5 l5 to_string_2)
  have m: "main lit narrow f2s =
     (0,
      ''Welcome to Student Management System'' @ endl @
      ''===================================='' @ endl @
      snd (system_registered lit narrow) @
      endl @ ''Student Records:'' @ endl @
      ''----------------'' @ endl @
      displayAllStudents f2s (fst (system_registered lit narrow)) @
      endl @ ''Removing student with ID 1002...'' @ endl @
      snd (system_removed lit narrow) @
      endl @ ''Updated Student Records:'' @ endl @
      ''-------------------------'' @ endl @
      displayAllStudents f2s (fst (system_removed lit narrow)) @
      endl @ ''Updating details for student with ID 1003...'' @ endl @
      snd (system_updated lit narrow) @
      endl @ ''Final Student Records:'' @ endl @
      ''-----------------------'' @ endl @
      displayAllStudents f2s (fst (system_updated lit narrow)))"
    by (simp add: main_def split_beta)
  have "main lit narrow f2s =
     (0,
      ''Welcome to Student Management System'' @ endl @
      ''===================================='' @ endl @
      ''Legacy system: Added student with ID 1001'' @ endl @
      ''Legacy system: Added student with ID 1002'' @ endl @
      ''Legacy system: Added student with ID 1003'' @ endl @
      endl @ ''Student Records:'' @ endl @
      ''----------------'' @ endl @
      ''Total Students: 3'' @ endl @
      ''ID: 1001, Name: John Smith, Score: '' @ f2s (narrow (lit ''3.75'')) @ endl @
      ''ID: 1002, Name: Emily Johnson, Score: '' @ f2s (narrow (lit ''3.92'')) @ endl @
      ''ID: 1003, Name: Michael Brown, Score: '' @ f2s (narrow (lit ''3.45'')) @ endl @
      endl @ ''Removing student with ID 1002...'' @ endl @
      ''Legacy system: Removed student with ID 1002'' @ endl @
      endl @ ''Updated Student Records:'' @ endl @
      ''-------------------------'' @ endl @
      ''Total Students: 2'' @ endl @
      ''ID: 1001, Name: John Smith, Score: '' @ f2s (narrow (lit ''3.75'')) @ endl @
      ''ID: 1003, Name: Michael Brown, Score: '' @ f2s (narrow (lit ''3.45'')) @ endl @
      endl @ ''Updating details for student with ID 1003...'' @ endl @
      ''Legacy system: Updated student with ID 1003'' @ endl @
      endl @ ''Final Student Records:'' @ endl @
      ''-----------------------'' @ endl @
      ''Total Students: 2'' @ endl @
      ''ID: 1001, Name: John Smith, Score: '' @ f2s (narrow (lit ''3.75'')) @ endl @
      ''ID: 1003, Name: Michael Brown Jr., Score: '' @ f2s (narrow (lit ''3.85'')) @ endl)"
    unfolding m d3 d4 d5
    by (simp add: system_registered_eq system_removed_eq system_updated_eq)
  with t3 l3 t4 l4 t5 l5 show ?thesis by blast
qed

subsection \<open>The size of the store\<close>

text \<open>
  Claim C2, as stated: at every point of a sequence of store operations the count is the
  number of inserts so far minus the number of deletes that reported success. It fails
  when an id was inserted twice: one successful delete then takes both records out. After
  two inserts of the id 1 and one delete of it, the count is 0 and not 2 - 1.
\<close>

theorem count_is_inserts_minus_successful_deletes_counterexample:
  "inserts_performed [Insert 1 ''A'' 0, Insert 1 ''B'' 0, Delete 1] = 2 \<and>
   successful_deletes [Insert 1 ''A'' 0, Insert 1 ''B'' 0, Delete 1] \<lparr>records = []\<rparr> = 1 \<and>
   getRecordCount (fst (run [Insert 1 ''A'' 0, Insert 1 ''B'' 0, Delete 1] \<lparr>records = []\<rparr>)) = 0 \<and>
   sint (getRecordCount (fst (run [Insert 1 ''A'' 0, Insert 1 ''B'' 0, Delete 1]
       \<lparr>records = []\<rparr>))) \<noteq>
     int (inserts_performed [Insert 1 ''A'' 0, Insert 1 ''B'' 0, Delete 1]) -
     int (successful_deletes [Insert 1 ''A'' 0, Insert 1 ''B'' 0, Delete 1] \<lparr>records = []\<rparr>)"
  by (simp add: insertStudentRecord_def deleteStudentRecord_def delete_succeeded_def
      getRecordCount_def)

text \<open>
  Claim C2, as amended: a \<open>deleteStudentRecord\<close> call takes out exactly the records that
  carry the id at the moment of the call, all of them, and reports success exactly when
  there is at least one. At every point of a sequence of store operations run from the
  empty store, the size of the store is the number of inserts so far minus the number of
  records these deletes took out, and \<open>getRecordCount\<close> returns that number as an
  \<open>int\<close> (as a number, whenever fewer than \<open>2 ^ 31\<close> inserts were made). As long as
  no insert adds an id that the store already holds, every delete that reports success
  takes out exactly one record, and the count is the number of inserts minus the number
  of deletes that reported success, as the claim says.
\<close>

theorem count_is_inserts_minus_deleted_records:
  "length (records (fst (deleteStudentRecord sid db))) + count_id sid db = length (records db) \<and>
   count_id sid (fst (deleteStudentRecord sid db)) = 0 \<and>
   (delete_succeeded sid db \<longleftrightarrow> 0 < count_id sid db) \<and>
   length (records (fst (run cs \<lparr>records = []\<rparr>))) + records_matched cs \<lparr>records = []\<rparr> =
     inserts_performed cs \<and>
   getRecordCount (fst (run cs \<lparr>records = []\<rparr>)) =
     of_nat (inserts_performed cs - records_matched cs \<lparr>records = []\<rparr>) \<and>
   successful_deletes cs \<lparr>records = []\<rparr> \<le> records_matched cs \<lparr>records = []\<rparr> \<and>
   (fresh_inserts cs \<lparr>records = []\<rparr> \<longrightarrow>
      records_matched cs \<lparr>records = []\<rparr> = successful_deletes cs \<lparr>records = []\<rparr> \<and>
      length (records (fst (run cs \<lparr>records = []\<rparr>))) + successful_deletes cs \<lparr>records = []\<rparr> =
        inserts_performed cs \<and>
      getRecordCount (fst (run cs \<lparr>records = []\<rparr>)) =
        of_nat (inserts_performed cs - successful_deletes cs \<lparr>records = []\<rparr>)) \<and>
   (inserts_performed cs < 2 ^ 31 \<longrightarrow>
      sint (getRecordCount (fst (run cs \<lparr>records = []\<rparr>))) =
        int (inserts_performed cs) - int (records_matched cs \<lparr>records = []\<rparr>))"
proof -
  let ?e = "\<lparr>records = []\<rparr>"
  have sz: "length (records (fst (run cs ?e))) + records_matched cs ?e = inserts_performed cs"
    using run_matched [of cs ?e] by simp
  then have len: "length (records (fst (run cs ?e))) =
      inserts_performed cs - records_matched cs ?e"
    and le: "records_matched cs ?e \<le> inserts_performed cs"
    by arith+
  have cnt: "getRecordCount (fst (run cs ?e)) =
      of_nat (inserts_performed cs - records_matched cs ?e)"
    by (simp add: getRecordCount_def len)
  have fresh: "records_matched cs ?e = successful_deletes cs ?e" if "fresh_inserts cs ?e"
    using that by (intro matched_is_successful) simp_all
  have signed: "sint (getRecordCount (fst (run cs ?e))) =
        int (inserts_performed cs) - int (records_matched cs ?e)"
    if "inserts_performed cs < 2 ^ 31"
  proof -
    from that len have "length (records (fst (run cs ?e))) < 2 ^ 31" by arith
    then have "sint (getRecordCount (fst (run cs ?e))) =
        int (length (records (fst (run cs ?e))))"
      by (rule sint_getRecordCount)
    with len le show ?thesis by simp
  qed
  have drop: "length (records (fst (deleteStudentRecord sid db))) + count_id sid db =
      length (records db)"
    by (rule delete_size)
  have none_left: "count_id sid (fst (deleteStudentRecord sid db)) = 0"
    by (simp add: count_id_delete)
  have reported: "delete_succeeded sid db \<longleftrightarrow> 0 < count_id sid db"
    by (rule delete_succeeded_count)
  from drop none_left reported sz cnt successful_le_matched [of cs ?e] fresh signed
  show ?thesis by (auto simp del: of_nat_diff)
qed

text \<open>
  The id 1 is inserted, deleted and inserted again, so no insert adds an id the store
  holds; the delete of 3 finds nothing.
\<close>

theorem count_is_inserts_minus_deleted_records_witness:
  "fresh_inserts [Insert 1 ''A'' 0, Insert 2 ''B'' 0, Delete 1, Delete 3, Insert 1 ''C'' 0]
     \<lparr>records = []\<rparr> \<and>
   inserts_performed [Insert 1 ''A'' 0, Insert 2 ''B'' 0, Delete 1, Delete 3, Insert 1 ''C'' 0]
     < 2 ^ 31 \<and>
   inserts_performed [Insert 1 ''A'' 0, Insert 2 ''B'' 0, Delete 1, Delete 3, Insert 1 ''C'' 0]
     = 3 \<and>
   successful_deletes [Insert 1 ''A'' 0, Insert 2 ''B'' 0, Delete 1, Delete 3, Insert 1 ''C'' 0]
     \<lparr>records = []\<rparr> = 1 \<and>
   length (records (fst (run
     [Insert 1 ''A'' 0, Insert 2 ''B'' 0, Delete 1, Delete 3, Insert 1 ''C'' 0]
     \<lparr>records = []\<rparr>))) = 2 \<and>
   sint (getRecordCount (fst (run
     [Insert 1 ''A'' 0, Insert 2 ''B'' 0, Delete 1, Delete 3, Insert 1 ''C'' 0]
     \<lparr>records = []\<rparr>))) = 2"
proof -
  let ?cs = "[Insert 1 ''A'' 0, Insert 2 ''B'' 0, Delete 1, Delete 3, Insert 1 ''C'' 0]"
  let ?e = "\<lparr>records = []\<rparr>"
  have fresh: "fresh_inserts ?cs ?e"
    by (simp add: count_id_def insertStudentRecord_def deleteStudentRecord_def)
  have ins: "inserts_performed ?cs = 3" by simp
  have bound: "inserts_performed ?cs < 2 ^ 31" by simp
  have suc: "successful_deletes ?cs ?e = 1"
    by (simp add: insertStudentRecord_def deleteStudentRecord_def delete_succeeded_def)
  note inst = count_is_inserts_minus_deleted_records [of 1 ?e ?cs]
  from inst fresh have m: "records_matched ?cs ?e = 1" unfolding suc by blast
  from inst fresh have "length (records (fst (run ?cs ?e))) + successful_deletes ?cs ?e =
      inserts_performed ?cs" by blast
  then have len: "length (records (fst (run ?cs ?e))) = 2" unfolding suc ins by arith
  from inst bound have "sint (getRecordCount (fst (run ?cs ?e))) =
      int (inserts_performed ?cs) - int (records_matched ?cs ?e)" by blast
  then have "sint (getRecordCount (fst (run ?cs ?e))) = 2" unfolding ins m by simp
  with fresh ins suc len bound show ?thesis by blast
qed

subsection \<open>Deleting\<close>

text \<open>
  Claim C3: for every store and every id, \<open>deleteStudentRecord\<close> (\<open>deleteById\<close>) removes
  every record with that id and keeps the others in their order; when no record has the
  id (as in the empty store) the store and its count are unchanged and the call writes
  the \<open>not found\<close> line; when some record has the id the call writes the \<open>Removed\<close> line.
  The call always returns: there is no error result.
\<close>

theorem deleteStudentRecord_removes_all:
  "records (fst (deleteStudentRecord sid db)) =
     filter (\<lambda>record. studentId record \<noteq> sid) (records db) \<and>
   (\<forall>record\<in>set (records (fst (deleteStudentRecord sid db))). studentId record \<noteq> sid) \<and>
   ((\<forall>record\<in>set (records db). studentId record \<noteq> sid) \<longrightarrow>
      deleteStudentRecord sid db =
        (db, ''Legacy system: Student with ID '' @ to_string sid @ '' not found'' @ endl) \<and>
      getRecordCount (fst (deleteStudentRecord sid db)) = getRecordCount db) \<and>
   ((\<exists>record\<in>set (records db). studentId record = sid) \<longrightarrow>
      snd (deleteStudentRecord sid db) =
        ''Legacy system: Removed student with ID '' @ to_string sid @ endl)"
proof -
  let ?p = "\<lambda>record. studentId record = sid"
  show ?thesis
  proof (cases "\<forall>record\<in>set (records db). \<not> ?p record")
    case True
    then have "remove_if ?p (records db) = records db"
      by (rule remove_if_none)
    then have del: "deleteStudentRecord sid db =
        (db, ''Legacy system: Student with ID '' @ to_string sid @ '' not found'' @ endl)"
      by (simp add: deleteStudentRecord_def)
    have "filter (\<lambda>record. studentId record \<noteq> sid) (records db) = records db"
      using True by (simp add: filter_id_conv)
    with del True show ?thesis by simp
  next
    case False
    then have "length (remove_if ?p (records db)) \<noteq> length (records db)"
      by (simp add: remove_if_same_length)
    then have del: "deleteStudentRecord sid db =
        (db\<lparr>records := remove_if ?p (records db)\<rparr>,
         ''Legacy system: Removed student with ID '' @ to_string sid @ endl)"
      by (simp add: deleteStudentRecord_def)
    with False show ?thesis by (simp add: remove_if_filter)
  qed
qed

text \<open>
  Two inputs: a store where the id 7 occurs twice, around a record with another id, and
  the empty store.
\<close>

theorem deleteStudentRecord_removes_all_witness:
  "(\<exists>record\<in>set [\<lparr>studentId = 7, fullName = ''A'', academicScore = 0\<rparr>,
                  \<lparr>studentId = 8, fullName = ''B'', academicScore = 0\<rparr>,
                  \<lparr>studentId = 7, fullName = ''C'', academicScore = 0\<rparr>].
      studentId record = 7) \<and>
   deleteStudentRecord 7
     \<lparr>records = [\<lparr>studentId = 7, fullName = ''A'', academicScore = 0\<rparr>,
                 \<lparr>studentId = 8, fullName = ''B'', academicScore = 0\<rparr>,
                 \<lparr>studentId = 7, fullName = ''C'', academicScore = 0\<rparr>]\<rparr> =
     (\<lparr>records = [\<lparr>studentId = 8, fullName = ''B'', academicScore = 0\<rparr>]\<rparr>,
      ''Legacy system: Removed student with ID 7'' @ endl) \<and>
   \<not> (\<exists>record\<in>set (records \<lparr>records = []\<rparr>). studentId record = 7) \<and>
   deleteStudentRecord 7 \<lparr>records = []\<rparr> =
     (\<lparr>records = []\<rparr>, ''Legacy system: Student with ID 7 not found'' @ endl) \<and>
   getRecordCount (fst (deleteStudentRecord 7 \<lparr>records = []\<rparr>)) = 0"
proof -
  let ?db = "\<lparr>records = [\<lparr>studentId = 7, fullName = ''A'', academicScore = 0\<rparr>,
                 \<lparr>studentId = 8, fullName = ''B'', academicScore = 0\<rparr>,
                 \<lparr>studentId = 7, fullName = ''C'', academicScore = 0\<rparr>]\<rparr>"
  note ts = to_string_7
  note full = deleteStudentRecord_removes_all [of 7 ?db]
  note empty = deleteStudentRecord_removes_all [of 7 "\<lparr>records = []\<rparr>"]
  have "fst (deleteStudentRecord 7 ?db) =
      \<lparr>records = [\<lparr>studentId = 8, fullName = ''B'', academicScore = 0\<rparr>]\<rparr>"
    using full by (cases "fst (deleteStudentRecord 7 ?db)") simp
  moreover have "snd (deleteStudentRecord 7 ?db) =
      ''Legacy system: Removed student with ID 7'' @ endl"
    using full ts by simp
  ultimately have "deleteStudentRecord 7 ?db =
     (\<lparr>records = [\<lparr>studentId = 8, fullName = ''B'', academicScore = 0\<rparr>]\<rparr>,
      ''Legacy system: Removed student with ID 7'' @ endl)"
    by (simp add: prod_eq_iff)
  moreover have "deleteStudentRecord 7 \<lparr>records = []\<rparr> =
     (\<lparr>records = []\<rparr>, ''Legacy system: Student with ID 7 not found'' @ endl)"
    using empty ts by simp
  moreover have "getRecordCount (fst (deleteStudentRecord 7 \<lparr>records = []\<rparr>)) = 0"
    using empty by (simp add: getRecordCount_def)
  ultimately show ?thesis by simp
qed

subsection \<open>Updating\<close>

text \<open>
  Claim C4: when the first record with the id is followed by any other records, among
  them further records with the same id, \<open>updateStudentRecord\<close> (\<open>updateById\<close>)
  overwrites the name and the score of that first record only and stops: the records
  before and after it are unchanged and in place, the id of the overwritten record and
  so the ids of all records are as before, and so are the size and the count.
\<close>

theorem updateStudentRecord_first_match_only:
  assumes "records db = before @ first # rest"
    and "\<forall>record\<in>set before. studentId record \<noteq> sid"
    and "studentId first = sid"
  shows "updateStudentRecord sid name score db =
           (db\<lparr>records := before @ first\<lparr>fullName := name, academicScore := score\<rparr> # rest\<rparr>,
            ''Legacy system: Updated student with ID '' @ to_string sid @ endl) \<and>
         studentId (first\<lparr>fullName := name, academicScore := score\<rparr>) = studentId first \<and>
         map studentId (records (fst (updateStudentRecord sid name score db))) =
           map studentId (records db) \<and>
         length (records (fst (updateStudentRecord sid name score db))) = length (records db) \<and>
         getRecordCount (fst (updateStudentRecord sid name score db)) = getRecordCount db"
proof -
  have "update_loop sid name score (records db) =
          Some (before @ first\<lparr>fullName := name, academicScore := score\<rparr> # rest)"
    unfolding assms(1) using assms(2,3) by (rule update_loop_first)
  then have upd: "updateStudentRecord sid name score db =
           (db\<lparr>records := before @ first\<lparr>fullName := name, academicScore := score\<rparr> # rest\<rparr>,
            ''Legacy system: Updated student with ID '' @ to_string sid @ endl)"
    by (simp add: updateStudentRecord_def)
  have ids: "map studentId (records (fst (updateStudentRecord sid name score db))) =
           map studentId (records db)"
    by (simp add: upd assms(1))
  have len: "length (records (fst (updateStudentRecord sid name score db))) =
           length (records db)"
    by (simp add: upd assms(1))
  then have "getRecordCount (fst (updateStudentRecord sid name score db)) = getRecordCount db"
    by (simp add: getRecordCount_def)
  with upd ids len show ?thesis by simp
qed

text \<open>
  A store where the id 7 occurs twice, behind a record with the id 5; the new score is
  the bit pattern of the \<open>float\<close> 3.75.
\<close>

theorem updateStudentRecord_first_match_only_witness:
  "updateStudentRecord 7 ''New'' 0x40700000
     \<lparr>records = [\<lparr>studentId = 5, fullName = ''A'', academicScore = 0\<rparr>,
                 \<lparr>studentId = 7, fullName = ''B'', academicScore = 0\<rparr>,
                 \<lparr>studentId = 7, fullName = ''C'', academicScore = 0\<rparr>]\<rparr> =
     (\<lparr>records = [\<lparr>studentId = 5, fullName = ''A'', academicScore = 0\<rparr>,
                  \<lparr>studentId = 7, fullName = ''New'', academicScore = 0x40700000\<rparr>,
                  \<lparr>studentId = 7, fullName = ''C'', academicScore = 0\<rparr>]\<rparr>,
      ''Legacy system: Updated student with ID 7'' @ endl)"
proof -
  let ?a = "\<lparr>studentId = 5, fullName = ''A'', academicScore = 0\<rparr>"
  let ?b = "\<lparr>studentId = 7, fullName = ''B'', academicScore = 0\<rparr>"
  let ?c = "\<lparr>studentId = 7, fullName = ''C'', academicScore = 0\<rparr>"
  have split: "records \<lparr>records = [?a, ?b, ?c]\<rparr> = [?a] @ ?b # [?c]" by simp
  have before: "\<forall>record\<in>set [?a]. studentId record \<noteq> 7" by simp
  have first: "studentId ?b = 7" by simp
  from updateStudentRecord_first_match_only [OF split before first, of "''New''" "0x40700000"]
    to_string_7
  show ?thesis by simp
qed

subsection \<open>Inserting\<close>

text \<open>
  Claim C5: for every store and every (id, name, score), \<open>insertStudentRecord\<close>
  (\<open>insert\<close>) appends the new record behind the existing ones, whatever their ids, and
  writes the \<open>Added\<close> line: the existing records are all still there, in place, and the
  number of records with the id goes up by one. No later insert, update or delete of
  another id takes one of them out: as long as the id itself is not deleted, at least
  these records with the id are in the store. A delete of the id removes them all.
\<close>

theorem insertStudentRecord_appends:
  "insertStudentRecord sid name score db =
     (db\<lparr>records := records db @
          [\<lparr>studentId = sid, fullName = name, academicScore = score\<rparr>]\<rparr>,
      ''Legacy system: Added student with ID '' @ to_string sid @ endl) \<and>
   take (length (records db)) (records (fst (insertStudentRecord sid name score db))) =
     records db \<and>
   length (records (fst (insertStudentRecord sid name score db))) = Suc (length (records db)) \<and>
   count_id sid (fst (insertStudentRecord sid name score db)) = Suc (count_id sid db) \<and>
   (Delete sid \<notin> set cs \<longrightarrow>
      Suc (count_id sid db) \<le>
        count_id sid (fst (run cs (fst (insertStudentRecord sid name score db))))) \<and>
   count_id sid (fst (deleteStudentRecord sid (fst (insertStudentRecord sid name score db)))) = 0"
proof -
  have "Delete sid \<notin> set cs \<Longrightarrow>
      Suc (count_id sid db) \<le>
        count_id sid (fst (run cs (fst (insertStudentRecord sid name score db))))"
    using count_id_run [of sid cs "fst (insertStudentRecord sid name score db)"]
    by (simp add: count_id_insert)
  then show ?thesis
    by (simp add: count_id_insert count_id_delete) (simp add: insertStudentRecord_def)
qed

text \<open>
  The id 7 is in the store and is inserted again; an update of 7 and an insert and a
  delete of 8 follow.
\<close>

theorem insertStudentRecord_appends_witness:
  "Delete 7 \<notin> set [Update 7 ''C'' 0, Insert 8 ''D'' 0, Delete 8] \<and>
   records (fst (insertStudentRecord 7 ''B'' 0
      \<lparr>records = [\<lparr>studentId = 7, fullName = ''A'', academicScore = 0\<rparr>]\<rparr>)) =
     [\<lparr>studentId = 7, fullName = ''A'', academicScore = 0\<rparr>,
      \<lparr>studentId = 7, fullName = ''B'', academicScore = 0\<rparr>] \<and>
   2 \<le> count_id 7 (fst (run [Update 7 ''C'' 0, Insert 8 ''D'' 0, Delete 8]
      (fst (insertStudentRecord 7 ''B'' 0
        \<lparr>records = [\<lparr>studentId = 7, fullName = ''A'', academicScore = 0\<rparr>]\<rparr>))))"
proof -
  let ?db = "\<lparr>records = [\<lparr>studentId = 7, fullName = ''A'', academicScore = 0\<rparr>]\<rparr>"
  let ?cs = "[Update 7 ''C'' 0, Insert 8 ''D'' 0, Delete 8]"
  have no_delete: "Delete 7 \<notin> set ?cs" by simp
  with insertStudentRecord_appends [of 7 "''B''" 0 ?db ?cs]
  have "Suc (count_id 7 ?db) \<le>
      count_id 7 (fst (run ?cs (fst (insertStudentRecord 7 ''B'' 0 ?db))))"
    by blast
  moreover have "count_id 7 ?db = 1" by (simp add: count_id_def)
  ultimately have "2 \<le> count_id 7 (fst (run ?cs (fst (insertStudentRecord 7 ''B'' 0 ?db))))"
    by (simp del: run.simps)
  moreover have "records (fst (insertStudentRecord 7 ''B'' 0 ?db)) =
     [\<lparr>studentId = 7, fullName = ''A'', academicScore = 0\<rparr>,
      \<lparr>studentId = 7, fullName = ''B'', academicScore = 0\<rparr>]"
    by (simp add: insertStudentRecord_def)
  ultimately show ?thesis using no_delete by blast
qed

text \<open>
  Claim C6: for every sequence of inserts with pairwise distinct ids, run from the empty
  store with no delete in between, the store holds \<open>k\<close> records after the first \<open>k\<close>
  inserts and \<open>getRecordCount\<close> returns \<open>k\<close> as an \<open>int\<close> (as a number, whenever
  \<open>k\<close> is below \<open>2 ^ 31\<close>).
\<close>

theorem count_after_distinct_inserts:
  assumes "distinct (map fst ins)" and "k \<le> length ins"
  shows "length (records (fst (run (insert_ops (take k ins)) \<lparr>records = []\<rparr>))) = k \<and>
         getRecordCount (fst (run (insert_ops (take k ins)) \<lparr>records = []\<rparr>)) = of_nat k \<and>
         (k < 2 ^ 31 \<longrightarrow>
            sint (getRecordCount (fst (run (insert_ops (take k ins)) \<lparr>records = []\<rparr>))) = int k)"
proof -
  have len: "length (records (fst (run (insert_ops (take k ins)) \<lparr>records = []\<rparr>))) = k"
    using assms(2) by (simp add: run_insert_ops_length)
  then have "getRecordCount (fst (run (insert_ops (take k ins)) \<lparr>records = []\<rparr>)) = of_nat k"
    by (simp add: getRecordCount_def)
  moreover have "sint (getRecordCount (fst (run (insert_ops (take k ins)) \<lparr>records = []\<rparr>))) =
      int k"
    if "k < 2 ^ 31"
    using sint_getRecordCount [of "fst (run (insert_ops (take k ins)) \<lparr>records = []\<rparr>)"] that len
    by simp
  ultimately show ?thesis using len by blast
qed

theorem count_after_distinct_inserts_witness:
  "distinct (map fst [(1001 :: cpp_int, ''John Smith'', 0 :: cpp_float),
                      (1002, ''Emily Johnson'', 0), (1003, ''Michael Brown'', 0)]) \<and>
   (2 :: nat) \<le> length [(1001 :: cpp_int, ''John Smith'', 0 :: cpp_float),
                      (1002, ''Emily Johnson'', 0), (1003, ''Michael Brown'', 0)] \<and>
   (2 :: nat) < 2 ^ 31 \<and>
   sint (getRecordCount (fst (run (insert_ops (take 2
      [(1001, ''John Smith'', 0), (1002, ''Emily Johnson'', 0), (1003, ''Michael Brown'', 0)]))
      \<lparr>records = []\<rparr>))) = 2"
proof -
  let ?ins = "[(1001 :: cpp_int, ''John Smith'', 0 :: cpp_float), (1002, ''Emily Johnson'', 0),
               (1003, ''Michael Brown'', 0)]"
  have d: "distinct (map fst ?ins)" by simp
  have k: "(2 :: nat) \<le> length ?ins" by simp
  from count_after_distinct_inserts [OF d k] d k show ?thesis by simp
qed

subsection \<open>The adapter\<close>

text \<open>
  Claim C7: every adapter operation is the store operation of the specification and
  nothing else. \<open>addStudent\<close> is \<open>insertStudentRecord\<close> with the score narrowed,
  \<open>removeStudent\<close> is \<open>deleteStudentRecord\<close>, \<open>updateStudentDetails\<close> is
  \<open>updateStudentRecord\<close> with the score narrowed, each with the same output;
  \<open>getAllStudentsInfo\<close> and \<open>getTotalStudents\<close> return what \<open>fetchAllRecords\<close> and
  \<open>getRecordCount\<close> return. The adapter has no state but its store, and any sequence of
  adapter calls leaves the store, and writes the text, of the translated sequence of
  store calls.
\<close>

theorem adapter_delegates:
  "addStudent narrow sid name gpa a =
     (a\<lparr>legacySystem := fst (insertStudentRecord sid name (narrow gpa) (legacySystem a))\<rparr>,
      snd (insertStudentRecord sid name (narrow gpa) (legacySystem a))) \<and>
   removeStudent sid a =
     (a\<lparr>legacySystem := fst (deleteStudentRecord sid (legacySystem a))\<rparr>,
      snd (deleteStudentRecord sid (legacySystem a))) \<and>
   updateStudentDetails narrow sid name gpa a =
     (a\<lparr>legacySystem := fst (updateStudentRecord sid name (narrow gpa) (legacySystem a))\<rparr>,
      snd (updateStudentRecord sid name (narrow gpa) (legacySystem a))) \<and>
   getAllStudentsInfo f2s a = fetchAllRecords f2s (legacySystem a) \<and>
   getTotalStudents a = getRecordCount (legacySystem a) \<and>
   a = \<lparr>legacySystem = legacySystem a\<rparr> \<and>
   run_adapter narrow cs a =
     (\<lparr>legacySystem = fst (run (map (spec_store_op narrow) cs) (legacySystem a))\<rparr>,
      snd (run (map (spec_store_op narrow) cs) (legacySystem a)))"
proof -
  have "a = \<lparr>legacySystem = legacySystem a\<rparr>" by (cases a) simp
  moreover have "run_adapter narrow cs a =
     (\<lparr>legacySystem = fst (run (map (spec_store_op narrow) cs) (legacySystem a))\<rparr>,
      snd (run (map (spec_store_op narrow) cs) (legacySystem a)))"
    by (cases a) (simp add: run_adapter_delegates)
  ultimately show ?thesis
    by (simp add: addStudent_def removeStudent_def updateStudentDetails_def
        getAllStudentsInfo_def getTotalStudents_def split_beta Let_def)
qed

subsection \<open>Narrowing\<close>

text \<open>
  Claim C9: the score that \<open>getAllStudentsInfo\<close> (\<open>listAll\<close>) reads back after
  \<open>addStudent\<close> is written from the narrowed \<open>float\<close>, for any narrowing. The
  \<open>double\<close> of the literal 3.14159265358979 has the bit pattern \<open>0x400921FB54442D11\<close>
  (its value is within half a unit in the last place of the decimal). Under IEEE 754 it
  is narrowed to the \<open>float\<close> \<open>0x40490FDB\<close>, the nearest \<open>float\<close> (closer than
  half the spacing \<open>2 ^ - 22\<close> of the \<open>float\<close>s there), whose value is not the value of
  the \<open>double\<close>: the entry read back is written from the single-precision value. No
  round trip is guaranteed: the \<open>double\<close> \<open>0x400921FB60000000\<close>, which has the value
  of that \<open>float\<close>, is narrowed to the same \<open>float\<close>, and for any narrowing there are
  two different \<open>double\<close>s for which \<open>addStudent\<close> and \<open>updateStudentDetails\<close>
  each leave the same adapter and so report the same afterwards.
\<close>

theorem narrowing_is_lossy:
  "getAllStudentsInfo f2s (fst (addStudent narrow 1 ''A'' gpa new_StudentSystemAdapter)) =
     [''ID: 1, Name: A, Score: '' @ f2s (narrow gpa)] \<and>
   double_value 0x400921FB54442D11 = Some (7074237752028433 / 2251799813685248) \<and>
   \<bar>7074237752028433 / 2251799813685248 - 314159265358979 / 10 ^ 14 :: rat\<bar> < 1 / 2 ^ 52 \<and>
   getAllStudentsInfo f2s
       (fst (addStudent ieee_narrow 1 ''A'' 0x400921FB54442D11 new_StudentSystemAdapter)) =
     [''ID: 1, Name: A, Score: '' @ f2s 0x40490FDB] \<and>
   float_value 0x40490FDB = Some (13176795 / 4194304) \<and>
   \<bar>13176795 / 4194304 - 7074237752028433 / 2251799813685248 :: rat\<bar> < 1 / 2 ^ 23 \<and>
   float_value (ieee_narrow 0x400921FB54442D11) \<noteq> double_value 0x400921FB54442D11 \<and>
   double_value 0x400921FB60000000 = float_value (ieee_narrow 0x400921FB54442D11) \<and>
   ieee_narrow 0x400921FB60000000 = ieee_narrow 0x400921FB54442D11 \<and>
   (\<exists>d d'. d \<noteq> d' \<and>
      addStudent narrow sid name d a = addStudent narrow sid name d' a \<and>
      updateStudentDetails narrow sid name d a = updateStudentDetails narrow sid name d' a)"
proof -
  have near_literal:
    "\<bar>7074237752028433 / 2251799813685248 - 314159265358979 / 10 ^ 14 :: rat\<bar> < 1 / 2 ^ 52"
    by simp
  have near_float:
    "\<bar>13176795 / 4194304 - 7074237752028433 / 2251799813685248 :: rat\<bar> < 1 / 2 ^ 23"
    by simp
  have differ: "float_value (ieee_narrow 0x400921FB54442D11) \<noteq> double_value 0x400921FB54442D11"
    by (simp add: ieee_narrow_example float_value_example double_value_example)
  have read_back: "getAllStudentsInfo f2s
       (fst (addStudent ieee_narrow 1 ''A'' 0x400921FB54442D11 new_StudentSystemAdapter)) =
     [''ID: 1, Name: A, Score: '' @ f2s 0x40490FDB]"
    by (simp only: listing_after_add ieee_narrow_example)
  obtain d d' where ne: "d \<noteq> d'" and same: "narrow d = narrow d'"
    using narrow_not_injective [of narrow] by blast
  have "addStudent narrow sid name d a = addStudent narrow sid name d' a"
    by (simp add: addStudent_def same)
  moreover have "updateStudentDetails narrow sid name d a =
      updateStudentDetails narrow sid name d' a"
    by (simp add: updateStudentDetails_def same)
  ultimately have "\<exists>d d'. d \<noteq> d' \<and>
      addStudent narrow sid name d a = addStudent narrow sid name d' a \<and>
      updateStudentDetails narrow sid name d a = updateStudentDetails narrow sid name d' a"
    using ne by blast
  with listing_after_add [of f2s narrow gpa] double_value_example near_literal read_back
    float_value_example near_float differ double_value_widened
    ieee_narrow_example ieee_narrow_example_widened
  show ?thesis by (simp only: simp_thms)
qed

subsection \<open>The dump\<close>

text \<open>
  Claim C8: for every store, \<open>fetchAllRecords\<close> (the specification's \<open>dumpAll\<close>) returns
  one string per record, in storage order, and the string of a record is
  \<open>ID: <id>, Name: <name>, Score: <score>\<close>, with the id in decimal, the name as stored and
  the score as \<open>std::to_string\<close> writes the stored \<open>float\<close>.
\<close>

theorem fetchAllRecords_format:
  "fetchAllRecords f2s db =
     map (\<lambda>record. ''ID: '' @ to_string (studentId record) @
                    '', Name: '' @ fullName record @
                    '', Score: '' @ f2s (academicScore record))
         (records db)"
  unfolding fetchAllRecords_def by (simp add: push_back_loop)

text \<open>
  Claim C10: for every adapter, \<open>getAllStudentsInfo\<close> (\<open>listAll\<close>) returns exactly one
  string per stored record, and \<open>getTotalStudents\<close> (\<open>total\<close>) returns that number as an
  \<open>int\<close>. The \<open>int\<close> read as a number is the number of strings whenever the store
  holds fewer than \<open>2 ^ 31\<close> records, the range in which an \<open>int\<close> can hold the size.
\<close>

theorem getAllStudentsInfo_length_is_total:
  "getTotalStudents a = of_nat (length (getAllStudentsInfo f2s a)) \<and>
   length (getAllStudentsInfo f2s a) = length (records (legacySystem a)) \<and>
   (length (records (legacySystem a)) < 2 ^ 31 \<longrightarrow>
      sint (getTotalStudents a) = int (length (getAllStudentsInfo f2s a)))"
proof -
  have len: "length (getAllStudentsInfo f2s a) = length (records (legacySystem a))"
    unfolding getAllStudentsInfo_def fetchAllRecords_def by (simp add: push_back_loop)
  have cnt: "getTotalStudents a = of_nat (length (records (legacySystem a)))"
    unfolding getTotalStudents_def getRecordCount_def by simp
  have "length (records (legacySystem a)) < 2 ^ 31 \<Longrightarrow>
        sint (getTotalStudents a) = int (length (records (legacySystem a)))"
    unfolding getTotalStudents_def by (rule sint_getRecordCount)
  with len cnt show ?thesis by simp
qed

text \<open>
  The store of the witness holds two records whose score is the \<open>float\<close> zero, which
  \<open>std::to_string\<close> writes as \<open>0.000000\<close>.
\<close>

theorem getAllStudentsInfo_length_is_total_witness:
  "length (records (legacySystem
     \<lparr>legacySystem = \<lparr>records =
        [\<lparr>studentId = 1001, fullName = ''John Smith'', academicScore = 0\<rparr>,
         \<lparr>studentId = 1003, fullName = ''Michael Brown'', academicScore = 0\<rparr>]\<rparr>\<rparr>)) < 2 ^ 31 \<and>
   sint (getTotalStudents
     \<lparr>legacySystem = \<lparr>records =
        [\<lparr>studentId = 1001, fullName = ''John Smith'', academicScore = 0\<rparr>,
         \<lparr>studentId = 1003, fullName = ''Michael Brown'', academicScore = 0\<rparr>]\<rparr>\<rparr>) = 2 \<and>
   length (getAllStudentsInfo (\<lambda>score. ''0.000000'')
     \<lparr>legacySystem = \<lparr>records =
        [\<lparr>studentId = 1001, fullName = ''John Smith'', academicScore = 0\<rparr>,
         \<lparr>studentId = 1003, fullName = ''Michael Brown'', academicScore = 0\<rparr>]\<rparr>\<rparr>) = 2"
  using getAllStudentsInfo_length_is_total
    [of "\<lparr>legacySystem = \<lparr>records =
        [\<lparr>studentId = 1001, fullName = ''John Smith'', academicScore = 0\<rparr>,
         \<lparr>studentId = 1003, fullName = ''Michael Brown'', academicScore = 0\<rparr>]\<rparr>\<rparr>"
        "\<lambda>score. ''0.000000''"]
  by simp

end
